theory Spec2Isabelle
  imports Main
begin

unbundle bit_operations_syntax

section \<open>Python values\<close>

text \<open>
  A Python \<open>str\<close> and a Python \<open>bytes\<close> object are both modelled as a list of
  8-bit characters; \<open>len\<close> is the length of that list, as a Python integer (\<open>int\<close>).
  Integers are unbounded, as in Python, and \<open>&\<close>, \<open>|\<close> are the bitwise operations on
  them.
\<close>

type_synonym str = string
type_synonym bytes = string

definition len :: "'a list \<Rightarrow> int" where
  "len xs = int (length xs)"

text \<open>
  The exceptions the three programs raise. \<open>FuseOSError\<close> carries an errno;
  \<open>FileNotFoundError\<close>, \<open>PermissionError\<close>, \<open>KeyError\<close> and \<open>ValueError\<close>
  are Python's built-in exceptions. A method that raises returns \<open>Inl\<close> of the
  exception, a method that returns a value returns \<open>Inr\<close> of it.
\<close>

datatype errno = ENOENT | EPERM

datatype exn =
    FuseOSError errno
  | FileNotFoundError
  | PermissionError
  | KeyError str
  | ValueError

text \<open>
  Slicing \<open>xs[a:b]\<close> as Python defines it: a negative bound counts from the end, and
  both bounds are clamped to the sequence; the slice is empty when the upper bound
  does not exceed the lower one.
\<close>

definition slice_bound :: "int \<Rightarrow> int \<Rightarrow> nat" where
  "slice_bound n i = nat (if i < 0 then max (i + n) 0 else min i n)"

definition py_slice :: "'a list \<Rightarrow> int \<Rightarrow> int \<Rightarrow> 'a list" where
  "py_slice xs a b =
     (let lo = slice_bound (len xs) a; hi = slice_bound (len xs) b
      in take (hi - lo) (drop lo xs))"

text \<open>\<open>xs[a:]\<close>: the slice from \<open>a\<close> to the end.\<close>

definition py_slice_from :: "'a list \<Rightarrow> int \<Rightarrow> 'a list" where
  "py_slice_from xs a = drop (slice_bound (len xs) a) xs"

text \<open>
  A dictionary keeps its keys in insertion order, and iterating over it yields the
  keys in that order: it is an association list. \<open>d[k]\<close> raises \<open>KeyError\<close> on a
  missing key.
\<close>

type_synonym 'v dict = "(str \<times> 'v) list"

definition dict_keys :: "'v dict \<Rightarrow> str list" where
  "dict_keys d = map fst d"

definition dict_contains :: "'v dict \<Rightarrow> str \<Rightarrow> bool" where
  "dict_contains d k = (k \<in> set (dict_keys d))"

definition dict_getitem :: "'v dict \<Rightarrow> str \<Rightarrow> exn + 'v" where
  "dict_getitem d k = (case map_of d k of None \<Rightarrow> Inl (KeyError k) | Some v \<Rightarrow> Inr v)"

text \<open>
  The attribute dictionary \<open>dict(st_mode=..., st_nlink=..., st_size=...)\<close> that
  \<open>getattr\<close> returns. The directory's dictionary has no \<open>st_size\<close> key, which is
  \<open>None\<close> here.
\<close>

record stat =
  st_mode :: int
  st_nlink :: int
  st_size :: "int option"

text \<open>
  The access-mode constants of the \<open>os\<close> module and the creation flags, with their
  values on Linux.
\<close>

definition O_RDONLY :: int where "O_RDONLY = 0"
definition O_WRONLY :: int where "O_WRONLY = 1"
definition O_RDWR :: int where "O_RDWR = 2"
definition O_CREAT :: int where "O_CREAT = 0x40"
definition O_TRUNC :: int where "O_TRUNC = 0x200"

section \<open>hello\_fs.py: the provider of one fixed file\<close>

text \<open>
  The class attributes \<open>hello_path\<close> and \<open>hello_str\<close>, read through \<open>self\<close>.
  \<open>HelloFS\<close> below is the class as the source declares it.
\<close>

record HelloFS =
  hello_path :: str
  hello_str :: bytes

definition HelloFS :: HelloFS where
  "HelloFS = \<lparr>HelloFS.hello_path = ''/hello'', hello_str = ''Hello, World!\<newline>''\<rparr>"

text \<open>Modes are octal in the source: \<open>0o755 = 0x1ED\<close>, \<open>0o040000 = 0x4000\<close>,
  \<open>0o444 = 0x124\<close>, \<open>0o100000 = 0x8000\<close>.\<close>

definition HelloFS_getattr :: "HelloFS \<Rightarrow> str \<Rightarrow> int option \<Rightarrow> exn + stat" where
  "HelloFS_getattr self path fh =
     (if path = ''/'' then
        Inr \<lparr>st_mode = 0x1ED OR 0x4000, st_nlink = 2, st_size = None\<rparr>
      else if path = HelloFS.hello_path self then
        Inr \<lparr>st_mode = 0x124 OR 0x8000, st_nlink = 1, st_size = Some (len (hello_str self))\<rparr>
      else Inl (FuseOSError ENOENT))"

definition HelloFS_readdir :: "HelloFS \<Rightarrow> str \<Rightarrow> int \<Rightarrow> exn + str list" where
  "HelloFS_readdir self path fh =
     (if path = ''/'' then
        Inr [''.'', ''..'', py_slice_from (HelloFS.hello_path self) 1]
      else Inl (FuseOSError ENOENT))"

definition HelloFS_open :: "HelloFS \<Rightarrow> str \<Rightarrow> int \<Rightarrow> exn + int" where
  "HelloFS_open self path flags =
     (if path \<noteq> HelloFS.hello_path self then Inl (FuseOSError ENOENT)
      else
        let allowed_flags = O_RDONLY OR O_WRONLY OR O_RDWR in
        if (flags AND allowed_flags) \<noteq> O_RDONLY then Inl (FuseOSError EPERM)
        else Inr 0)"

definition HelloFS_read :: "HelloFS \<Rightarrow> str \<Rightarrow> int \<Rightarrow> int \<Rightarrow> int \<Rightarrow> exn + bytes" where
  "HelloFS_read self path size' offset fh =
     (if path \<noteq> HelloFS.hello_path self then Inl (FuseOSError ENOENT)
      else Inr (py_slice (hello_str self) offset (offset + size')))"

section \<open>format\_fs.py: the provider of one file in several formats\<close>

record FormatFS =
  hello_path :: str
  content_by_format :: "bytes dict"
  default_format :: str

definition FormatFS :: FormatFS where
  \<open>FormatFS = \<lparr>
     hello_path = ''/hello'',
     content_by_format = [
       (''csv'', ''greeting,recipient\<newline>Hello,World!\<newline>''),
       (''txt'', ''Hello, World!\<newline>''),
       (''json'', ''{"message": "Hello, World!"}\<newline>''),
       (''xml'', ''<message>Hello, World!</message>\<newline>'')],
     default_format = ''txt''\<rparr>\<close>

text \<open>
  The loop \<open>for ext in self.content_by_format\<close> of \<open>getattr\<close>, over the keys that
  are left: it returns at the first key whose name completes the path, and falls
  through to the final \<open>raise\<close> when no key does.
\<close>

fun FormatFS_getattr_for :: "FormatFS \<Rightarrow> str \<Rightarrow> str list \<Rightarrow> exn + stat" where
  "FormatFS_getattr_for self path [] = Inl (FuseOSError ENOENT)"
| "FormatFS_getattr_for self path (ext # exts) =
     (if path = hello_path self @ ''.'' @ ext then
        (case dict_getitem (content_by_format self) ext of
           Inl e \<Rightarrow> Inl e
         | Inr content \<Rightarrow>
             Inr \<lparr>st_mode = 0x124 OR 0x8000, st_nlink = 1, st_size = Some (len content)\<rparr>)
      else FormatFS_getattr_for self path exts)"

definition FormatFS_getattr :: "FormatFS \<Rightarrow> str \<Rightarrow> int option \<Rightarrow> exn + stat" where
  "FormatFS_getattr self path fh =
     (if path = ''/'' then
        Inr \<lparr>st_mode = 0x1ED OR 0x4000, st_nlink = 2, st_size = None\<rparr>
      else if path = hello_path self then
        (case dict_getitem (content_by_format self) (default_format self) of
           Inl e \<Rightarrow> Inl e
         | Inr content \<Rightarrow>
             Inr \<lparr>st_mode = 0x124 OR 0x8000, st_nlink = 1, st_size = Some (len content)\<rparr>)
      else if len path > 7
              \<and> py_slice path 0 (len (hello_path self @ ''.'')) = hello_path self @ ''.'' then
        FormatFS_getattr_for self path (dict_keys (content_by_format self))
      else Inl (FuseOSError ENOENT))"

definition FormatFS_readdir :: "FormatFS \<Rightarrow> str \<Rightarrow> int \<Rightarrow> exn + str list" where
  "FormatFS_readdir self path fh =
     (if path = ''/'' then
        Inr [''.'', ''..'', py_slice_from (hello_path self) 1]
      else Inl FileNotFoundError)"

definition FormatFS_open :: "FormatFS \<Rightarrow> str \<Rightarrow> int \<Rightarrow> exn + int" where
  "FormatFS_open self path flags =
     (if path \<noteq> hello_path self then Inl FileNotFoundError
      else
        let allowed_flags = O_RDONLY OR O_WRONLY OR O_RDWR in
        if (flags AND allowed_flags) \<noteq> O_RDONLY then Inl PermissionError
        else Inr 0)"

definition FormatFS_read :: "FormatFS \<Rightarrow> str \<Rightarrow> int \<Rightarrow> int \<Rightarrow> int \<Rightarrow> exn + bytes" where
  "FormatFS_read self path size' offset fh =
     (if path = hello_path self then
        dict_getitem (content_by_format self) (default_format self)
      else if len path > 7
              \<and> py_slice path 0 (len (hello_path self @ ''.'')) = hello_path self @ ''.'' then
        let ext = py_slice_from path (len (hello_path self @ ''.'')) in
        if \<not> dict_contains (content_by_format self) ext then Inl (FuseOSError ENOENT)
        else dict_getitem (content_by_format self) ext
      else Inl (FuseOSError ENOENT))"

section \<open>wrench\_fs.py: the passthrough provider\<close>

text \<open>
  The instance holds the backing root and the lock (\<open>True\<close> while it is held; a new
  \<open>Lock()\<close> is free). \<open>realpath\<close> belongs to the operating system's path library and is
  a parameter of the constructor's model.
\<close>

record WrenchFS =
  root :: str
  rwlock :: bool

definition WrenchFS_init :: "(str \<Rightarrow> str) \<Rightarrow> str \<Rightarrow> str \<Rightarrow> exn + WrenchFS" where
  "WrenchFS_init realpath password mount =
     (if password = ''password1'' then
        Inr \<lparr>root = realpath ''./benign'', rwlock = False\<rparr>
      else if password = ''supersecret'' then
        Inr \<lparr>root = realpath ''./secret'', rwlock = False\<rparr>
      else Inl ValueError)"

text \<open>
  A structural request as the runtime hands it to \<open>__call__(op, path, *args)\<close>: the
  constructor names \<open>op\<close> and carries \<open>*args\<close>, the arguments after the first path.
\<close>

datatype fuse_op =
    Chmod int
  | Chown int int
  | Create int
  | Mkdir int
  | Mknod int int
  | Unlink
  | Rmdir
  | Utimens "(int \<times> int) option"
  | Rename str
  | Symlink str
  | Link str
  | Truncate int "int option"

text \<open>
  The call on the backing filesystem that a method makes, with its arguments.
  \<open>open_truncate p n\<close> is \<open>with open(p, 'r+') as f: f.truncate(n)\<close>.
\<close>

datatype os_call =
    os_chmod str int
  | os_chown str int int
  | os_open str int int
  | os_mkdir str int
  | os_mknod str int int
  | os_unlink str
  | os_rmdir str
  | os_utime str "(int \<times> int) option"
  | os_rename str str
  | os_symlink str str
  | os_link str str
  | open_truncate str int

text \<open>
  The method of the class that \<open>op\<close> names, applied to the path it is given and to
  \<open>*args\<close>. The methods assigned from the \<open>os\<close> module (\<open>chmod = os.chmod\<close> and the
  like) pass their arguments through unchanged.
\<close>

fun WrenchFS_method :: "WrenchFS \<Rightarrow> fuse_op \<Rightarrow> str \<Rightarrow> os_call" where
  "WrenchFS_method self (Chmod mode) path = os_chmod path mode"
| "WrenchFS_method self (Chown uid gid) path = os_chown path uid gid"
| "WrenchFS_method self (Create mode) path =
     os_open path (O_WRONLY OR O_CREAT OR O_TRUNC) mode"
| "WrenchFS_method self (Mkdir mode) path = os_mkdir path mode"
| "WrenchFS_method self (Mknod mode dev) path = os_mknod path mode dev"
| "WrenchFS_method self Unlink path = os_unlink path"
| "WrenchFS_method self Rmdir path = os_rmdir path"
| "WrenchFS_method self (Utimens times') path = os_utime path times'"
| "WrenchFS_method self (Rename new) old = os_rename old new"
| "WrenchFS_method self (Symlink source) target = os_symlink source target"
| "WrenchFS_method self (Link source) target = os_link (root self @ source) target"
| "WrenchFS_method self (Truncate length' fh) path = open_truncate path length'"

text \<open>
  \<open>__call__\<close> prefixes the first path with the root and hands over to the inherited
  dispatcher, which calls the method named \<open>op\<close>.
\<close>

definition WrenchFS_call :: "WrenchFS \<Rightarrow> fuse_op \<Rightarrow> str \<Rightarrow> os_call" where
  "WrenchFS_call self op path = WrenchFS_method self op (root self @ path)"

section \<open>Slices and dictionaries\<close>

lemma slice_bound_nonneg: "0 \<le> i \<Longrightarrow> slice_bound n i = nat (min i n)"
  by (simp add: slice_bound_def)

text \<open>With bounds that are not negative, \<open>xs[a:a+s]\<close> drops \<open>a\<close> elements and keeps at
  most \<open>s\<close>.\<close>

lemma py_slice_nonneg:
  assumes "0 \<le> a" "0 \<le> s"
  shows "py_slice xs a (a + s) = take (nat s) (drop (nat a) xs)"
proof (cases "nat a \<le> length xs")
  case True
  with assms show ?thesis
    by (auto simp: py_slice_def slice_bound_nonneg len_def Let_def min_def
        nat_diff_distrib nat_add_distrib)
next
  case False
  with assms show ?thesis
    by (auto simp: py_slice_def slice_bound_nonneg len_def Let_def min_def)
qed

lemma py_slice_past_end:
  assumes "len xs \<le> a" "0 \<le> s"
  shows "py_slice xs a (a + s) = []"
proof -
  from assms have "0 \<le> a" by (simp add: len_def)
  from py_slice_nonneg [OF this assms(2), of xs] assms(1) show ?thesis
    by (simp add: len_def)
qed

lemma py_slice_prefix: "py_slice (h @ t) 0 (len h) = h"
  by (simp add: py_slice_def slice_bound_def len_def Let_def min_def)

lemma py_slice_from_suffix: "py_slice_from (h @ t) (len h) = t"
  by (simp add: py_slice_from_def slice_bound_def len_def min_def)


lemma dict_getitem_Inr: "dict_getitem d k = Inr v \<longleftrightarrow> map_of d k = Some v"
  by (simp add: dict_getitem_def split: option.splits)

lemma dict_contains_map_of: "dict_contains d k \<longleftrightarrow> map_of d k \<noteq> None"
  by (simp add: dict_contains_def dict_keys_def map_of_eq_None_iff)

lemma map_of_Some_key: "map_of d k = Some v \<Longrightarrow> k \<in> set (dict_keys d)"
  by (auto simp: dict_keys_def dest: map_of_SomeD intro: rev_image_eqI)

lemma dotted_neq_root: "h @ ''.'' @ s \<noteq> ''/''"
  by (auto simp: append_eq_Cons_conv)

lemma dotted_neq_base: "h @ ''.'' @ s \<noteq> h"
  by simp

section \<open>Path classification in format\_fs.py\<close>

lemma FormatFS_keys:
  "dict_keys (content_by_format FormatFS) = [''csv'', ''txt'', ''json'', ''xml'']"
  by (simp add: FormatFS_def dict_keys_def)


lemma getattr_for_supported:
  "map_of (content_by_format self) f = Some payload \<Longrightarrow> f \<in> set exts \<Longrightarrow>
   FormatFS_getattr_for self (hello_path self @ ''.'' @ f) exts =
     Inr \<lparr>st_mode = 0x124 OR 0x8000, st_nlink = 1, st_size = Some (len payload)\<rparr>"
  by (induction exts) (auto simp: dict_getitem_def)






text \<open>A registered format is served under its suffix, provided the whole path is
  longer than the seven characters the source compares its length with.\<close>

lemma FormatFS_getattr_supported:
  assumes "map_of (content_by_format self) f = Some payload"
    and "7 < len (hello_path self @ ''.'' @ f)"
  shows "FormatFS_getattr self (hello_path self @ ''.'' @ f) fh =
     Inr \<lparr>st_mode = 0x124 OR 0x8000, st_nlink = 1, st_size = Some (len payload)\<rparr>"
proof -
  from getattr_for_supported [OF assms(1) map_of_Some_key [OF assms(1)]] assms(2)
    py_slice_prefix [of "hello_path self @ ''.''" f]
  show ?thesis
    unfolding FormatFS_getattr_def
    by (simp only: dotted_neq_root dotted_neq_base if_False append_assoc) simp
qed

lemma FormatFS_read_supported:
  assumes "map_of (content_by_format self) f = Some payload"
    and "7 < len (hello_path self @ ''.'' @ f)"
  shows "FormatFS_read self (hello_path self @ ''.'' @ f) sz offset fh = Inr payload"
proof -
  have ext: "py_slice_from (hello_path self @ ''.'' @ f) (len (hello_path self @ ''.'')) = f"
    using py_slice_from_suffix [of "hello_path self @ ''.''" f] by simp
  have pre: "py_slice (hello_path self @ ''.'' @ f) 0 (len (hello_path self @ ''.''))
               = hello_path self @ ''.''"
    using py_slice_prefix [of "hello_path self @ ''.''" f] by simp
  from assms(1) have "dict_contains (content_by_format self) f"
    by (simp add: dict_contains_map_of)
  with assms ext pre show ?thesis
    unfolding FormatFS_read_def Let_def
    by (simp only: dotted_neq_base if_False if_True simp_thms dict_getitem_Inr)
qed

lemma FormatFS_key_long_enough:
  assumes "map_of (content_by_format FormatFS) f = Some payload"
  shows "7 < len (hello_path FormatFS @ ''.'' @ f)"
proof -
  from map_of_Some_key [OF assms] have "f \<noteq> []"
    by (auto simp: FormatFS_keys)
  then show ?thesis by (cases f) (simp_all add: len_def FormatFS_def)
qed

section \<open>Reading a range\<close>

text \<open>\<open>HelloFS.read\<close> returns the requested range of the payload, and nothing from
  the end of the payload on.\<close>

lemma HelloFS_read_slices:
  assumes "0 \<le> offset" "0 \<le> sz"
  shows "HelloFS_read self (HelloFS.hello_path self) sz offset fh =
           Inr (take (nat sz) (drop (nat offset) (hello_str self)))"
  using py_slice_nonneg [OF assms] by (simp add: HelloFS_read_def)

lemma HelloFS_read_past_end:
  assumes "len (hello_str self) \<le> offset" "0 \<le> sz"
  shows "HelloFS_read self (HelloFS.hello_path self) sz offset fh = Inr []"
  using py_slice_past_end [OF assms] by (simp add: HelloFS_read_def)

text \<open>\<open>FormatFS.read\<close> does not look at \<open>size\<close> and \<open>offset\<close>.\<close>

lemma FormatFS_read_same_for_all_ranges:
  "FormatFS_read self path sz offset fh = FormatFS_read self path sz' offset' fh'"
  by (simp add: FormatFS_read_def)

text \<open>
  Claim C1. Every virtual provider's \<open>read(path, size, offset)\<close> returns
  \<open>payload[offset : offset+size]\<close> for every synthetic path and every non-negative
  offset and size, and the empty sequence from the end of the payload on.
  \<open>HelloFS.read\<close> does (\<open>HelloFS_read_slices\<close>, \<open>HelloFS_read_past_end\<close>);
  \<open>FormatFS.read\<close> returns the whole payload: asked for 5 bytes at offset 0 of
  \<open>/hello\<close> it returns all 14 bytes where the slice is \<open>Hello\<close>, and asked for
  5 bytes at offset 14, the end of the payload, it returns all 14 bytes where the slice
  is empty.
\<close>

theorem FormatFS_read_ignores_offset_and_size:
  "FormatFS_read FormatFS ''/hello'' 5 0 0 = Inr ''Hello, World!\<newline>''
   \<and> py_slice ''Hello, World!\<newline>'' 0 (0 + 5) = ''Hello''
   \<and> FormatFS_read FormatFS ''/hello'' 5 14 0 = Inr ''Hello, World!\<newline>''
   \<and> py_slice ''Hello, World!\<newline>'' 14 (14 + 5) = []"
  by (simp add: FormatFS_read_def FormatFS_def dict_getitem_def py_slice_def slice_bound_def
      len_def)



section \<open>Attributes\<close>

text \<open>
  Claim C5. For every format \<open>f\<close> of the content table of \<open>FormatFS\<close>, with payload
  \<open>payload\<close>, attribute lookup on base path + \<open>.\<close> + \<open>f\<close> reports a regular file whose
  \<open>st_size\<close> is the length of \<open>payload\<close>; on the bare base path it reports the length of
  the payload of the default format \<open>txt\<close>; and \<open>HelloFS\<close> reports the length of its one
  payload.
\<close>

theorem getattr_size_is_payload_length:
  "(dict_getitem (content_by_format FormatFS) f = Inr payload \<longrightarrow>
      FormatFS_getattr FormatFS (hello_path FormatFS @ ''.'' @ f) fh =
        Inr \<lparr>st_mode = 0x124 OR 0x8000, st_nlink = 1, st_size = Some (len payload)\<rparr>)
   \<and> dict_getitem (content_by_format FormatFS) (default_format FormatFS)
        = Inr ''Hello, World!\<newline>''
   \<and> FormatFS_getattr FormatFS (hello_path FormatFS) fh =
        Inr \<lparr>st_mode = 0x124 OR 0x8000, st_nlink = 1,
             st_size = Some (len ''Hello, World!\<newline>'')\<rparr>
   \<and> HelloFS_getattr HelloFS (HelloFS.hello_path HelloFS) fh =
        Inr \<lparr>st_mode = 0x124 OR 0x8000, st_nlink = 1,
             st_size = Some (len (hello_str HelloFS))\<rparr>"
proof -
  have "FormatFS_getattr FormatFS (hello_path FormatFS @ ''.'' @ f) fh =
        Inr \<lparr>st_mode = 0x124 OR 0x8000, st_nlink = 1, st_size = Some (len payload)\<rparr>"
    if "dict_getitem (content_by_format FormatFS) f = Inr payload"
  proof -
    from that have m: "map_of (content_by_format FormatFS) f = Some payload"
      by (simp add: dict_getitem_Inr)
    from FormatFS_getattr_supported [OF m FormatFS_key_long_enough [OF m]]
    show ?thesis .
  qed
  moreover have "dict_getitem (content_by_format FormatFS) (default_format FormatFS)
        = Inr ''Hello, World!\<newline>''"
    by (simp add: FormatFS_def dict_getitem_def)
  moreover have "FormatFS_getattr FormatFS (hello_path FormatFS) fh =
        Inr \<lparr>st_mode = 0x124 OR 0x8000, st_nlink = 1,
             st_size = Some (len ''Hello, World!\<newline>'')\<rparr>"
    by (simp add: FormatFS_getattr_def FormatFS_def dict_getitem_def)
  moreover have "HelloFS_getattr HelloFS (HelloFS.hello_path HelloFS) fh =
        Inr \<lparr>st_mode = 0x124 OR 0x8000, st_nlink = 1,
             st_size = Some (len (hello_str HelloFS))\<rparr>"
    by (simp add: HelloFS_getattr_def HelloFS_def)
  ultimately show ?thesis by blast
qed

theorem getattr_size_is_payload_length_witness:
  \<open>dict_getitem (content_by_format FormatFS) ''json''
     = Inr ''{"message": "Hello, World!"}\<newline>''
   \<and> FormatFS_getattr FormatFS ''/hello.json'' None =
        Inr \<lparr>st_mode = 0x124 OR 0x8000, st_nlink = 1, st_size = Some 29\<rparr>
   \<and> FormatFS_getattr FormatFS ''/hello'' None =
        Inr \<lparr>st_mode = 0x124 OR 0x8000, st_nlink = 1, st_size = Some 14\<rparr>
   \<and> HelloFS_getattr HelloFS ''/hello'' None =
        Inr \<lparr>st_mode = 0x124 OR 0x8000, st_nlink = 1, st_size = Some 14\<rparr>\<close>
proof -
  have a: \<open>dict_getitem (content_by_format FormatFS) ''json''
             = Inr ''{"message": "Hello, World!"}\<newline>''\<close>
    by (simp add: FormatFS_def dict_getitem_def)
  have hp: "hello_path FormatFS = ''/hello''" "HelloFS.hello_path HelloFS = ''/hello''"
    "hello_str HelloFS = ''Hello, World!\<newline>''"
    by (simp_all add: FormatFS_def HelloFS_def)
  from getattr_size_is_payload_length [of "''json''"
      \<open>''{"message": "Hello, World!"}\<newline>''\<close> None] a
  show ?thesis by (simp add: hp len_def)
qed

text \<open>
  Claim C9, as stated: attribute lookup on the root returns a directory whose mode is
  read and execute for all (\<open>0o555 = 0x16D\<close>) plus the directory type bit. Both
  providers return \<open>0o40755 = 0x41ED\<close>, which is a different mode: the owner may write
  as well.
\<close>

theorem root_mode_grants_owner_write:
  "HelloFS_getattr HelloFS ''/'' None
      = Inr \<lparr>st_mode = 0x41ED, st_nlink = 2, st_size = None\<rparr>
   \<and> FormatFS_getattr FormatFS ''/'' None
      = Inr \<lparr>st_mode = 0x41ED, st_nlink = 2, st_size = None\<rparr>
   \<and> (0x41ED :: int) \<noteq> 0x16D OR 0x4000"
  by (simp add: HelloFS_getattr_def FormatFS_getattr_def)

text \<open>
  Claim C9, amended. For every virtual provider, whatever its class attributes are,
  attribute lookup on the root path returns the mode \<open>0o755\<close> plus the directory type
  bit \<open>0o040000\<close>, link count 2 and no size. That mode grants read and execute to all
  (\<open>0o555 = 0x16D\<close>), write to the owner alone (of \<open>0o222 = 0x92\<close> only \<open>0o200 = 0x80\<close>
  is set), and its type bits (\<open>0o170000 = 0xF000\<close>) are those of a directory.
\<close>

theorem root_is_directory_with_two_links:
  "HelloFS_getattr self ''/'' fh
      = Inr \<lparr>st_mode = 0x1ED OR 0x4000, st_nlink = 2, st_size = None\<rparr>
   \<and> FormatFS_getattr self' ''/'' fh
      = Inr \<lparr>st_mode = 0x1ED OR 0x4000, st_nlink = 2, st_size = None\<rparr>
   \<and> (0x1ED OR 0x4000 :: int) AND 0x16D = 0x16D
   \<and> (0x1ED OR 0x4000 :: int) AND 0x92 = 0x80
   \<and> (0x1ED OR 0x4000 :: int) AND 0xF000 = 0x4000"
  by (simp add: HelloFS_getattr_def FormatFS_getattr_def)

section \<open>Directory listing\<close>

lemma py_slice_from_1: "py_slice_from xs 1 = drop 1 xs"
  by (cases xs) (simp_all add: py_slice_from_def slice_bound_def len_def min_def)

text \<open>
  Claim C6. Listing the root returns exactly \<open>.\<close>, \<open>..\<close> and \<open>hello\<close>, in that order, in
  \<open>HelloFS\<close> and in \<open>FormatFS\<close> with any content table in place of its own, so that no
  format suffix is ever listed; listing any other path raises \<open>FuseOSError(ENOENT)\<close> in
  \<open>HelloFS\<close> and \<open>FileNotFoundError\<close> in \<open>FormatFS\<close>.
\<close>

theorem readdir_lists_base_name_only:
  "HelloFS_readdir HelloFS ''/'' fh = Inr [''.'', ''..'', ''hello'']
   \<and> FormatFS_readdir (FormatFS\<lparr>content_by_format := table\<rparr>) ''/'' fh
        = Inr [''.'', ''..'', ''hello'']
   \<and> (path \<noteq> ''/'' \<longrightarrow>
          HelloFS_readdir self path fh = Inl (FuseOSError ENOENT)
        \<and> FormatFS_readdir self' path fh = Inl FileNotFoundError)"
  by (simp add: HelloFS_readdir_def FormatFS_readdir_def HelloFS_def FormatFS_def
      py_slice_from_1)

theorem readdir_lists_base_name_only_witness:
  "''/hello'' \<noteq> ''/''
   \<and> HelloFS_readdir HelloFS ''/hello'' 0 = Inl (FuseOSError ENOENT)
   \<and> FormatFS_readdir FormatFS ''/hello'' 0 = Inl FileNotFoundError
   \<and> HelloFS_readdir HelloFS ''/'' 0 = Inr [''.'', ''..'', ''hello'']
   \<and> FormatFS_readdir (FormatFS\<lparr>content_by_format := []\<rparr>) ''/'' 0
        = Inr [''.'', ''..'', ''hello'']"
  using readdir_lists_base_name_only [of 0 "[]" "''/hello''" HelloFS FormatFS]
  by simp

section \<open>Opening\<close>

text \<open>\<open>open\<close> returns the handle 0 on the base path with the access mode
  \<open>O_RDONLY\<close>, and on nothing else: \<open>allowed_flags\<close> is 3.\<close>

lemma HelloFS_open_Inr:
  "HelloFS_open self path flags = Inr h \<longleftrightarrow>
     path = HelloFS.hello_path self \<and> flags AND 3 = 0 \<and> h = 0"
  by (auto simp: HelloFS_open_def O_RDONLY_def O_WRONLY_def O_RDWR_def Let_def)

lemma FormatFS_open_Inr:
  "FormatFS_open self path flags = Inr h \<longleftrightarrow>
     path = hello_path self \<and> flags AND 3 = 0 \<and> h = 0"
  by (auto simp: FormatFS_open_def O_RDONLY_def O_WRONLY_def O_RDWR_def Let_def)

text \<open>On the base path, a write access mode is refused: with \<open>FuseOSError(EPERM)\<close> in
  \<open>HelloFS\<close>, with \<open>PermissionError\<close> in \<open>FormatFS\<close>.\<close>

lemma HelloFS_open_write_intent:
  assumes "flags AND 3 = O_WRONLY \<or> flags AND 3 = O_RDWR"
  shows "HelloFS_open self (HelloFS.hello_path self) flags = Inl (FuseOSError EPERM)"
  using assms
  by (auto simp: HelloFS_open_def O_RDONLY_def O_WRONLY_def O_RDWR_def Let_def)

lemma FormatFS_open_write_intent:
  assumes "flags AND 3 = O_WRONLY \<or> flags AND 3 = O_RDWR"
  shows "FormatFS_open self (hello_path self) flags = Inl PermissionError"
  using assms
  by (auto simp: FormatFS_open_def O_RDONLY_def O_WRONLY_def O_RDWR_def Let_def)

lemma FormatFS_open_not_base:
  "path \<noteq> hello_path self \<Longrightarrow> FormatFS_open self path flags = Inl FileNotFoundError"
  by (simp add: FormatFS_open_def)

text \<open>
  Claim C4. In every virtual provider \<open>open\<close> succeeds only on a synthetic path with a
  read-only access mode (\<open>HelloFS_open_Inr\<close>, \<open>FormatFS_open_Inr\<close>), and on every
  synthetic path a write access mode is refused with a permission error. The second
  part holds on the base path (\<open>HelloFS_open_write_intent\<close>,
  \<open>FormatFS_open_write_intent\<close>), and fails in \<open>FormatFS\<close> on a path with a format
  suffix: \<open>/hello.json\<close> is a synthetic file for \<open>getattr\<close>, and opening it with
  \<open>O_WRONLY\<close> or \<open>O_RDWR\<close> raises \<open>FileNotFoundError\<close>, not \<open>PermissionError\<close>.
\<close>

theorem FormatFS_open_suffixed_write_not_found:
  "FormatFS_getattr FormatFS ''/hello.json'' None =
       Inr \<lparr>st_mode = 0x124 OR 0x8000, st_nlink = 1, st_size = Some 29\<rparr>
   \<and> FormatFS_open FormatFS ''/hello.json'' O_WRONLY = Inl FileNotFoundError
   \<and> FormatFS_open FormatFS ''/hello.json'' O_RDWR = Inl FileNotFoundError"
  by (simp add: FormatFS_getattr_def FormatFS_open_def FormatFS_def len_def py_slice_def
      slice_bound_def dict_keys_def dict_getitem_def)

text \<open>
  Claim C10. In \<open>FormatFS\<close>, \<open>open\<close> returns a handle, which is 0, only when the path is
  the bare base path, and does so there for \<open>O_RDONLY\<close>. For every format \<open>f\<close> of the
  content table, with payload \<open>payload\<close>, opening base path + \<open>.\<close> + \<open>f\<close> raises
  \<open>FileNotFoundError\<close> whatever the flags are, while attribute lookup on that same path
  returns a regular file of the payload's size and read returns the payload.
\<close>

theorem FormatFS_open_only_base_path:
  "(FormatFS_open self path flags = Inr h \<longrightarrow> path = hello_path self \<and> h = 0)
   \<and> FormatFS_open self (hello_path self) O_RDONLY = Inr 0
   \<and> (dict_getitem (content_by_format FormatFS) f = Inr payload \<longrightarrow>
          FormatFS_open FormatFS (hello_path FormatFS @ ''.'' @ f) flags
            = Inl FileNotFoundError
        \<and> FormatFS_getattr FormatFS (hello_path FormatFS @ ''.'' @ f) fh =
            Inr \<lparr>st_mode = 0x124 OR 0x8000, st_nlink = 1, st_size = Some (len payload)\<rparr>
        \<and> FormatFS_read FormatFS (hello_path FormatFS @ ''.'' @ f) sz offset fh'
            = Inr payload)"
proof -
  have "path = hello_path self \<and> h = 0" if "FormatFS_open self path flags = Inr h"
    using that by (simp add: FormatFS_open_Inr)
  moreover have "FormatFS_open self (hello_path self) O_RDONLY = Inr 0"
    by (simp add: FormatFS_open_Inr O_RDONLY_def)
  moreover have
    "FormatFS_open FormatFS (hello_path FormatFS @ ''.'' @ f) flags = Inl FileNotFoundError
     \<and> FormatFS_getattr FormatFS (hello_path FormatFS @ ''.'' @ f) fh =
         Inr \<lparr>st_mode = 0x124 OR 0x8000, st_nlink = 1, st_size = Some (len payload)\<rparr>
     \<and> FormatFS_read FormatFS (hello_path FormatFS @ ''.'' @ f) sz offset fh' = Inr payload"
    if "dict_getitem (content_by_format FormatFS) f = Inr payload"
  proof -
    from that have m: "map_of (content_by_format FormatFS) f = Some payload"
      by (simp add: dict_getitem_Inr)
    note long = FormatFS_key_long_enough [OF m]
    from FormatFS_open_not_base [OF dotted_neq_base, of FormatFS f flags]
      FormatFS_getattr_supported [OF m long, of fh]
      FormatFS_read_supported [OF m long, of sz offset fh']
    show ?thesis by blast
  qed
  ultimately show ?thesis by blast
qed

theorem FormatFS_open_only_base_path_witness:
  \<open>FormatFS_open FormatFS ''/hello'' O_RDONLY = Inr 0
   \<and> dict_getitem (content_by_format FormatFS) ''json''
       = Inr ''{"message": "Hello, World!"}\<newline>''
   \<and> FormatFS_open FormatFS ''/hello.json'' O_RDONLY = Inl FileNotFoundError
   \<and> FormatFS_getattr FormatFS ''/hello.json'' None =
        Inr \<lparr>st_mode = 0x124 OR 0x8000, st_nlink = 1, st_size = Some 29\<rparr>
   \<and> FormatFS_read FormatFS ''/hello.json'' 29 0 0
       = Inr ''{"message": "Hello, World!"}\<newline>''\<close>
proof -
  have a: \<open>dict_getitem (content_by_format FormatFS) ''json''
             = Inr ''{"message": "Hello, World!"}\<newline>''\<close>
    by (simp add: FormatFS_def dict_getitem_def)
  have hp: "hello_path FormatFS = ''/hello''"
    by (simp add: FormatFS_def)
  from FormatFS_open_only_base_path [of FormatFS "''/hello''" O_RDONLY 0 "''json''"
      \<open>''{"message": "Hello, World!"}\<newline>''\<close> None 29 0 0] a
  show ?thesis by (simp add: hp len_def)
qed

section \<open>The passthrough provider\<close>

text \<open>
  Claim C3. The constructor selects \<open>realpath('./benign')\<close> for the credential
  \<open>password1\<close> and \<open>realpath('./secret')\<close> for \<open>supersecret\<close>, the absolute form being
  what \<open>realpath\<close> returns; for any other credential it raises \<open>ValueError\<close>, so that no
  instance, and with it no root, exists to serve a request.
\<close>

theorem WrenchFS_init_credentials:
  "WrenchFS_init realpath ''password1'' mount
      = Inr \<lparr>root = realpath ''./benign'', rwlock = False\<rparr>
   \<and> WrenchFS_init realpath ''supersecret'' mount
      = Inr \<lparr>root = realpath ''./secret'', rwlock = False\<rparr>
   \<and> (password \<noteq> ''password1'' \<and> password \<noteq> ''supersecret'' \<longrightarrow>
        WrenchFS_init realpath password mount = Inl ValueError)"
  by (simp add: WrenchFS_init_def)

theorem WrenchFS_init_credentials_witness:
  "''letmein'' \<noteq> ''password1'' \<and> ''letmein'' \<noteq> ''supersecret''
   \<and> WrenchFS_init (\<lambda>p. ''/srv'' @ drop 1 p) ''letmein'' ''/mnt'' = Inl ValueError
   \<and> WrenchFS_init (\<lambda>p. ''/srv'' @ drop 1 p) ''password1'' ''/mnt''
        = Inr \<lparr>root = ''/srv/benign'', rwlock = False\<rparr>
   \<and> WrenchFS_init (\<lambda>p. ''/srv'' @ drop 1 p) ''supersecret'' ''/mnt''
        = Inr \<lparr>root = ''/srv/secret'', rwlock = False\<rparr>"
  using WrenchFS_init_credentials [of "\<lambda>p. ''/srv'' @ drop 1 p" "''/mnt''" "''letmein''"]
  by simp

text \<open>The operations with one path hand it to the backing call under the root.\<close>

lemma WrenchFS_call_one_path:
  "WrenchFS_call self (Chmod mode) path = os_chmod (root self @ path) mode"
  "WrenchFS_call self (Chown uid gid) path = os_chown (root self @ path) uid gid"
  "WrenchFS_call self (Create mode) path
     = os_open (root self @ path) (O_WRONLY OR O_CREAT OR O_TRUNC) mode"
  "WrenchFS_call self (Mkdir mode) path = os_mkdir (root self @ path) mode"
  "WrenchFS_call self (Mknod mode dev) path = os_mknod (root self @ path) mode dev"
  "WrenchFS_call self Unlink path = os_unlink (root self @ path)"
  "WrenchFS_call self Rmdir path = os_rmdir (root self @ path)"
  "WrenchFS_call self (Utimens ts) path = os_utime (root self @ path) ts"
  "WrenchFS_call self (Truncate n fh) path = open_truncate (root self @ path) n"
  by (simp_all add: WrenchFS_call_def)

text \<open>Of the operations with two paths, \<open>link\<close> puts both under the root, \<open>symlink\<close>
  keeps the text of the link as it is, and \<open>rename\<close> leaves the new path as the caller
  gave it.\<close>

lemma WrenchFS_call_two_paths:
  "WrenchFS_call self (Link source) target
     = os_link (root self @ source) (root self @ target)"
  "WrenchFS_call self (Symlink source) target = os_symlink source (root self @ target)"
  "WrenchFS_call self (Rename new) old = os_rename (root self @ old) new"
  by (simp_all add: WrenchFS_call_def)

text \<open>
  Claim C7. Every structural operation of the passthrough provider delegates to the
  backing primitive with its paths rewritten under the backing root, and
  \<open>rename(old, new)\<close> in particular calls the backing rename with both paths rewritten.
  With the root \<open>/srv/benign\<close>, the request to rename \<open>/a\<close> to \<open>/b\<close> calls
  \<open>os.rename('/srv/benign/a', '/b')\<close>: the new path is outside the root. The request
  to link \<open>/a\<close> to \<open>/b\<close> rewrites both.
\<close>

theorem WrenchFS_rename_new_path_not_rewritten:
  "WrenchFS_call \<lparr>root = ''/srv/benign'', rwlock = False\<rparr> (Rename ''/b'') ''/a''
     = os_rename ''/srv/benign/a'' ''/b''
   \<and> WrenchFS_call \<lparr>root = ''/srv/benign'', rwlock = False\<rparr> (Rename ''/b'') ''/a''
     \<noteq> os_rename ''/srv/benign/a'' ''/srv/benign/b''
   \<and> WrenchFS_call \<lparr>root = ''/srv/benign'', rwlock = False\<rparr> (Link ''/b'') ''/a''
     = os_link ''/srv/benign/b'' ''/srv/benign/a''"
  by (simp add: WrenchFS_call_def)

end
